theory Spec2Isabelle
  imports Main
begin

section \<open>Strings\<close>

text \<open>
  The TypeScript sources work on JavaScript strings. They are modelled as \<open>string\<close>
  (a list of characters); the non-ASCII literals of the sources are written as their
  UTF-8 bytes. Only emptiness, concatenation, prefix and substring tests are used, and
  these do not depend on the encoding.
\<close>

text \<open>\<open>s.startsWith(p)\<close>\<close>

fun startsWith :: "'a list \<Rightarrow> 'a list \<Rightarrow> bool" where
  "startsWith s [] = True"
| "startsWith [] (p # ps) = False"
| "startsWith (c # cs) (p # ps) = (c = p \<and> startsWith cs ps)"

text \<open>\<open>s.includes(p)\<close>: \<open>p\<close> starts at some position of \<open>s\<close>.\<close>

fun includes_str :: "'a list \<Rightarrow> 'a list \<Rightarrow> bool" where
  "includes_str [] p = startsWith [] p"
| "includes_str (c # cs) p = (startsWith (c # cs) p \<or> includes_str cs p)"

text \<open>
  The number of positions of \<open>s\<close> at which \<open>p\<close> starts. The two placeholders cannot
  overlap themselves (\<open>{\<close> occurs in them once, in front), so for them this is
  the number of occurrences however they are counted.
\<close>

fun occurrences :: "'a list \<Rightarrow> 'a list \<Rightarrow> nat" where
  "occurrences p [] = (if startsWith [] p then 1 else 0)"
| "occurrences p (c # cs) = (if startsWith (c # cs) p then 1 else 0) + occurrences p cs"

definition is_space :: "char \<Rightarrow> bool" where
  "is_space c = (c \<in> set [CHR '' '', CHR 0x09, CHR 0x0A, CHR 0x0B, CHR 0x0C, CHR 0x0D])"

definition trim :: "string \<Rightarrow> string" where
  "trim s = rev (dropWhile is_space (rev (dropWhile is_space s)))"

definition first_word :: "string \<Rightarrow> string" where
  "first_word s = takeWhile (\<lambda>c. \<not> is_space c) (trim s)"


text \<open>
  \<open>s.replace(pat, rep)\<close> with a string pattern: the first occurrence is replaced.
\<close>

fun substitute :: "'a list \<Rightarrow> 'a list \<Rightarrow> 'a list \<Rightarrow> 'a list" where
  "substitute pat rep [] = (if startsWith [] pat then rep else [])"
| "substitute pat rep (c # cs) =
     (if startsWith (c # cs) pat then rep @ drop (length pat) (c # cs)
      else c # substitute pat rep cs)"

text \<open>The decimal digits of a natural number, as \<open>String(n)\<close> prints an integer.\<close>

fun string_of_nat :: "nat \<Rightarrow> string" where
  "string_of_nat n =
     (if n < 10 then [''0123456789'' ! n]
      else string_of_nat (n div 10) @ [''0123456789'' ! (n mod 10)])"

declare string_of_nat.simps [simp del]

section \<open>JavaScript values: the parsed response body\<close>

text \<open>
  The handler holds the response body as \<open>data: any\<close>, whatever JSON the server sent.
  The type \<open>'n\<close> is the type of numbers. The handler uses three operations on
  numbers, all of them built into the language and none of them in the repository;
  they are parameters of the model: whether a number is truthy (all but \<open>0\<close>, \<open>-0\<close>
  and \<open>NaN\<close> are), its string form, and \<open>(x / 1000).toFixed(2)\<close>.
\<close>

datatype 'n jsval =
    JUndefined | JNull | JBool bool | JNum 'n | JStr string
  | JArr "'n jsval list" | JObj "(string \<times> 'n jsval) list"

record 'n number_ops =
  num_truthy :: "'n \<Rightarrow> bool"
  num_to_string :: "'n \<Rightarrow> string"
  seconds_toFixed2 :: "'n \<Rightarrow> string"

text \<open>\<open>ToBoolean\<close>: what \<open>||\<close>, \<open>&&\<close>, \<open>!\<close> and \<open>? :\<close> test.\<close>

fun truthy :: "'n number_ops \<Rightarrow> 'n jsval \<Rightarrow> bool" where
  "truthy ops JUndefined = False"
| "truthy ops JNull = False"
| "truthy ops (JBool b) = b"
| "truthy ops (JNum n) = num_truthy ops n"
| "truthy ops (JStr s) = (s \<noteq> [])"
| "truthy ops (JArr xs) = True"
| "truthy ops (JObj kvs) = True"

text \<open>\<open>typeof v === 'number'\<close>\<close>

fun is_number :: "'n jsval \<Rightarrow> bool" where
  "is_number (JNum n) = True"
| "is_number v = False"

text \<open>
  Reading a property of \<open>null\<close> or \<open>undefined\<close> throws a \<open>TypeError\<close>. On every
  other value the read gives the object's own property of that name, and
  \<open>undefined\<close> where there is none. (The handler reads \<open>download_url\<close>,
  \<open>download_path\<close>, \<open>duration_ms\<close>, \<open>message\<close> and \<open>error\<close>; no built-in
  prototype has a property of these names.) A \<open>JObj\<close> lists the own properties of
  the object, each key once.
\<close>

fun nullish :: "'n jsval \<Rightarrow> bool" where
  "nullish JUndefined = True"
| "nullish JNull = True"
| "nullish v = False"

fun field :: "'n jsval \<Rightarrow> string \<Rightarrow> 'n jsval" where
  "field (JObj kvs) k = (case map_of kvs k of None \<Rightarrow> JUndefined | Some v \<Rightarrow> v)"
| "field v k = JUndefined"

fun join_comma :: "string list \<Rightarrow> string" where
  "join_comma [] = []"
| "join_comma [x] = x"
| "join_comma (x # y # ys) = x @ '','' @ join_comma (y # ys)"

text \<open>
  \<open>ToString\<close>, as a template literal \<open>`...${v}...`\<close> applies it; \<open>None\<close> is a
  thrown \<open>TypeError\<close>. An array is joined with commas, \<open>null\<close> and \<open>undefined\<close>
  elements as the empty string. An object goes through \<open>OrdinaryToPrimitive\<close>: with
  no own \<open>toString\<close> property it reaches \<open>Object.prototype.toString\<close> and prints as
  \<open>[object Object]\<close>; an own \<open>toString\<close> property of a parsed object is never
  callable, \<open>valueOf\<close> then yields no primitive either, and the conversion throws.
\<close>

fun to_string :: "'n number_ops \<Rightarrow> 'n jsval \<Rightarrow> string option"
  and element_string :: "'n number_ops \<Rightarrow> 'n jsval \<Rightarrow> string option" where
  "to_string ops JUndefined = Some ''undefined''"
| "to_string ops JNull = Some ''null''"
| "to_string ops (JBool b) = Some (if b then ''true'' else ''false'')"
| "to_string ops (JNum n) = Some (num_to_string ops n)"
| "to_string ops (JStr s) = Some s"
| "to_string ops (JArr xs) = map_option join_comma (those (map (element_string ops) xs))"
| "to_string ops (JObj kvs) =
     (if ''toString'' \<in> set (map fst kvs) then None else Some ''[object Object]'')"
| "element_string ops JUndefined = Some []"
| "element_string ops JNull = Some []"
| "element_string ops v = to_string ops v"

text \<open>
  An instance of the number operations, for numbers that are a whole count of
  milliseconds below \<open>2^53\<close> (the integers a JavaScript number holds exactly, all
  printed with all their digits).

  \<open>ms / 1000\<close> is the double nearest to the quotient, ties to the even mantissa
  (IEEE 754). \<open>scale_up\<close> doubles the numerator until the quotient has a mantissa of
  53 bits: it gives \<open>ms * 2^e\<close> and \<open>2^e\<close>. \<open>toFixed(2)\<close> prints the integer \<open>n\<close> for
  which \<open>n / 100\<close> is nearest to that double, the larger one of two, with two
  decimals.
\<close>

function scale_up :: "nat \<Rightarrow> nat \<Rightarrow> nat \<times> nat" where
  "scale_up a p =
     (if a = 0 \<or> 4503599627370496000 \<le> a then (a, p) else scale_up (2 * a) (2 * p))"
  by pat_completeness auto
termination
  by (relation "measure (\<lambda>(a, p). 4503599627370496000 - a)") auto

declare scale_up.simps [simp del]

definition fixed2_of_ms :: "nat \<Rightarrow> string" where
  "fixed2_of_ms ms =
     (case scale_up ms 1 of
        (a, p) \<Rightarrow>
          (let q = a div 1000;
               r = a mod 1000;
               m = (if 500 < r \<or> r = 500 \<and> odd q then q + 1 else q);
               n = (200 * m + p) div (2 * p)
           in string_of_nat (n div 100) @ ''.''
              @ string_of_nat (n mod 100 div 10) @ string_of_nat (n mod 10)))"

definition nat_ops :: "nat number_ops" where
  "nat_ops = \<lparr>num_truthy = (\<lambda>n. n \<noteq> 0), num_to_string = string_of_nat,
               seconds_toFixed2 = fixed2_of_ms\<rparr>"

section \<open>The file picker (FileUpload component)\<close>

text \<open>A browser \<open>File\<close>: its name, its MIME type and its bytes.\<close>

record File =
  file_name :: string
  file_type :: string
  file_content :: string

text \<open>
  What a handler of the component does: it calls \<open>onFileChange\<close>, or it shows an
  alert, or neither. The alert text is U+8BF7 U+4E0A U+4F20 U+89C6 U+9891 U+6587 U+4EF6.
\<close>

datatype upload_effect = NoEffect | OnFileChange "File option" | Alert string

definition alert_not_video :: string where
  "alert_not_video =
     [CHR 0xE8, CHR 0xAF, CHR 0xB7, CHR 0xE4, CHR 0xB8, CHR 0x8A, CHR 0xE4, CHR 0xBC, CHR 0xA0,
      CHR 0xE8, CHR 0xA7, CHR 0x86, CHR 0xE9, CHR 0xA2, CHR 0x91, CHR 0xE6, CHR 0x96, CHR 0x87,
      CHR 0xE4, CHR 0xBB, CHR 0xB6]"

definition handleDrop :: "File list \<Rightarrow> upload_effect" where
  "handleDrop droppedFiles =
     (case droppedFiles of
        [] \<Rightarrow> NoEffect
      | videoFile # _ \<Rightarrow>
          if startsWith (file_type videoFile) ''video/'' then OnFileChange (Some videoFile)
          else Alert alert_not_video)"

text \<open>\<open>e.target.files\<close> is a \<open>FileList\<close> or \<open>null\<close>.\<close>

definition handleFileSelect :: "File list option \<Rightarrow> upload_effect" where
  "handleFileSelect selectedFiles =
     (case selectedFiles of
        None \<Rightarrow> NoEffect
      | Some [] \<Rightarrow> NoEffect
      | Some (videoFile # _) \<Rightarrow>
          if startsWith (file_type videoFile) ''video/'' then OnFileChange (Some videoFile)
          else Alert alert_not_video)"

definition clearFile :: upload_effect where
  "clearFile = OnFileChange None"

text \<open>
  \<open>App\<close> passes \<open>setFile\<close> as \<open>onFileChange\<close>: the effect of a handler on the
  \<open>file\<close> state.
\<close>

fun setFile_by :: "upload_effect \<Rightarrow> File option \<Rightarrow> File option" where
  "setFile_by (OnFileChange f) cur = f"
| "setFile_by eff cur = cur"

datatype upload_event = Drop "File list" | Select "File list option" | Clear

fun file_after :: "upload_event \<Rightarrow> File option \<Rightarrow> File option" where
  "file_after (Drop fs) cur = setFile_by (handleDrop fs) cur"
| "file_after (Select fs) cur = setFile_by (handleFileSelect fs) cur"
| "file_after Clear cur = setFile_by clearFile cur"

text \<open>The \<open>file\<close> state after a sequence of events, from \<open>useState(null)\<close>.\<close>

definition file_state :: "upload_event list \<Rightarrow> File option" where
  "file_state evs = foldl (\<lambda>cur ev. file_after ev cur) None evs"

definition is_video :: "File \<Rightarrow> bool" where
  "is_video f = startsWith (file_type f) ''video/''"

definition null_or_video :: "File option \<Rightarrow> bool" where
  "null_or_video cur = (case cur of None \<Rightarrow> True | Some f \<Rightarrow> is_video f)"

section \<open>The default output filename (OutputFilenameInput component)\<close>

text \<open>
  The regular expression \<open>/\.[^/.]+$/\<close> matches at a position when a dot stands
  there and a non-empty run of characters other than \<open>/\<close> and \<open>.\<close> follows it up to
  the end of the string.
\<close>

fun ext_matches_here :: "string \<Rightarrow> bool" where
  "ext_matches_here [] = False"
| "ext_matches_here (c # cs) =
     (c = CHR ''.'' \<and> cs \<noteq> [] \<and> list_all (\<lambda>d. d \<noteq> CHR ''/'' \<and> d \<noteq> CHR ''.'') cs)"

text \<open>
  \<open>name.replace(/\.[^/.]+$/, '')\<close>: the leftmost match is removed; it ends at the
  end of the string.
\<close>

fun replace_ext :: "string \<Rightarrow> string" where
  "replace_ext [] = []"
| "replace_ext (c # cs) = (if ext_matches_here (c # cs) then [] else c # replace_ext cs)"

text \<open>
  The effect hook: \<open>Some v\<close> is the call \<open>onOutputFilenameChange(v)\<close>, \<open>None\<close> no
  call. \<open>App\<close> passes \<open>setOutputFilename\<close>.
\<close>

definition outputFilename_effect :: "File option \<Rightarrow> string \<Rightarrow> string option" where
  "outputFilename_effect f outputFilename =
     (case f of
        None \<Rightarrow> None
      | Some fl \<Rightarrow>
          if outputFilename = [] then Some (replace_ext (file_name fl) @ ''_processed.mp4'')
          else None)"

definition outputFilename_after :: "File option \<Rightarrow> string \<Rightarrow> string" where
  "outputFilename_after f outputFilename =
     (case outputFilename_effect f outputFilename of None \<Rightarrow> outputFilename | Some v \<Rightarrow> v)"

section \<open>The application state and the process action (App component)\<close>

datatype status = Success | Error | Info

text \<open>
  The \<open>result\<close> state: \<open>status\<close>, \<open>message\<close> and \<open>downloadUrl\<close> are optional
  properties; an absent one is \<open>None\<close>, respectively \<open>JUndefined\<close>. The message and
  the URL come from \<open>data\<close> and can be any value.
\<close>

record 'n result =
  status :: "status option"
  message :: "'n jsval"
  downloadUrl :: "'n jsval"

record 'n app_state =
  cur_file :: "File option"
  command :: string
  outputFilename :: string
  isProcessing :: bool
  result :: "'n result"

definition initial_state :: "'n app_state" where
  "initial_state =
     \<lparr>cur_file = None, command = [], outputFilename = [], isProcessing = False,
      result = \<lparr>status = None, message = JUndefined, downloadUrl = JUndefined\<rparr>\<rparr>"

text \<open>\<open>const canProcess = file && command && outputFilename\<close>, as a boolean.\<close>

definition canProcess :: "'n app_state \<Rightarrow> bool" where
  "canProcess st = (cur_file st \<noteq> None \<and> command st \<noteq> [] \<and> outputFilename st \<noteq> [])"

text \<open>
  The button of \<open>ProcessControl\<close>: \<open>disabled={!canProcess || isProcessing}\<close>.
\<close>

definition process_button_disabled :: "'n app_state \<Rightarrow> bool" where
  "process_button_disabled st = (\<not> canProcess st \<or> isProcessing st)"

text \<open>
  The literals of the handler:
  U+6B63 U+5728 U+4E0A U+4F20 U+6587 U+4EF6 \<open>...\<close>;
  U+89C6 U+9891 U+5904 U+7406 U+5B8C U+6210 U+FF01;
  U+8017 U+65F6 and a space;
  U+FF0C U+8017 U+65F6 and a space;
  U+5904 U+7406 U+5931 U+8D25 \<open> (HTTP \<close>;
  U+7F51 U+7EDC U+9519 U+8BEF U+FF0C U+8BF7 U+786E U+4FDD U+540E U+7AEF U+670D U+52A1
  U+5DF2 U+542F U+52A8.
\<close>

definition msg_uploading :: string where
  "msg_uploading =
     [CHR 0xE6, CHR 0xAD, CHR 0xA3, CHR 0xE5, CHR 0x9C, CHR 0xA8, CHR 0xE4, CHR 0xB8, CHR 0x8A,
      CHR 0xE4, CHR 0xBC, CHR 0xA0, CHR 0xE6, CHR 0x96, CHR 0x87, CHR 0xE4, CHR 0xBB, CHR 0xB6]
     @ ''...''"

definition msg_done :: string where
  "msg_done =
     [CHR 0xE8, CHR 0xA7, CHR 0x86, CHR 0xE9, CHR 0xA2, CHR 0x91, CHR 0xE5, CHR 0xA4, CHR 0x84,
      CHR 0xE7, CHR 0x90, CHR 0x86, CHR 0xE5, CHR 0xAE, CHR 0x8C, CHR 0xE6, CHR 0x88, CHR 0x90,
      CHR 0xEF, CHR 0xBC, CHR 0x81]"

definition elapsed_label :: string where
  "elapsed_label = [CHR 0xE8, CHR 0x80, CHR 0x97, CHR 0xE6, CHR 0x97, CHR 0xB6] @ '' ''"

definition comma_elapsed_label :: string where
  "comma_elapsed_label = [CHR 0xEF, CHR 0xBC, CHR 0x8C] @ elapsed_label"

definition msg_failed_http :: string where
  "msg_failed_http =
     [CHR 0xE5, CHR 0xA4, CHR 0x84, CHR 0xE7, CHR 0x90, CHR 0x86, CHR 0xE5, CHR 0xA4, CHR 0xB1,
      CHR 0xE8, CHR 0xB4, CHR 0xA5] @ '' (HTTP ''"

definition msg_network_error :: string where
  "msg_network_error =
     [CHR 0xE7, CHR 0xBD, CHR 0x91, CHR 0xE7, CHR 0xBB, CHR 0x9C, CHR 0xE9, CHR 0x94, CHR 0x99,
      CHR 0xE8, CHR 0xAF, CHR 0xAF, CHR 0xEF, CHR 0xBC, CHR 0x8C, CHR 0xE8, CHR 0xAF, CHR 0xB7,
      CHR 0xE7, CHR 0xA1, CHR 0xAE, CHR 0xE4, CHR 0xBF, CHR 0x9D, CHR 0xE5, CHR 0x90, CHR 0x8E,
      CHR 0xE7, CHR 0xAB, CHR 0xAF, CHR 0xE6, CHR 0x9C, CHR 0x8D, CHR 0xE5, CHR 0x8A, CHR 0xA1,
      CHR 0xE5, CHR 0xB7, CHR 0xB2, CHR 0xE5, CHR 0x90, CHR 0xAF, CHR 0xE5, CHR 0x8A, CHR 0xA8]"

subsection \<open>The request\<close>

datatype form_value = FileField File | TextField string

record request =
  req_url :: string
  req_method :: string
  req_headers :: "(string \<times> string) list"
  req_body :: "(string \<times> form_value) list"

text \<open>The arguments of the one call of \<open>fetch\<close>, with the \<open>FormData\<close> as built.\<close>

definition upload_request :: "File \<Rightarrow> string \<Rightarrow> string \<Rightarrow> request" where
  "upload_request f cmd outName =
     \<lparr>req_url = ''/api/upload'',
      req_method = ''POST'',
      req_headers = [(''X-Command'', cmd)],
      req_body = [(''file'', FileField f), (''command'', TextField cmd),
                  (''output_filename'', TextField outName)]\<rparr>"

text \<open>
  \<open>handleProcess\<close> up to its first \<open>await\<close>: \<open>None\<close> is the early \<open>return\<close> of the
  guard; otherwise the request handed to \<open>fetch\<close> and the state while it is in
  flight.
\<close>

definition handleProcess_begin :: "'n app_state \<Rightarrow> (request \<times> 'n app_state) option" where
  "handleProcess_begin st =
     (case cur_file st of
        None \<Rightarrow> None
      | Some f \<Rightarrow>
          if command st = [] \<or> outputFilename st = [] then None
          else Some (upload_request f (command st) (outputFilename st),
                     st\<lparr>isProcessing := True,
                        result := \<lparr>status = Some Info, message = JStr msg_uploading,
                                   downloadUrl = JUndefined\<rparr>\<rparr>))"

subsection \<open>The response\<close>

text \<open>
  What \<open>fetch\<close> gives back. The body is unreadable (\<open>response.json()\<close> and
  \<open>response.text()\<close> reject), or a text that is JSON, given by the value it denotes
  (what \<open>response.json()\<close> resolves to and what \<open>JSON.parse\<close> returns), or a text
  that is not JSON (\<open>response.json()\<close> rejects and \<open>JSON.parse\<close> throws).
  \<open>content_type\<close> is \<open>response.headers.get('content-type')\<close>, \<open>None\<close> for
  \<open>null\<close>. A rejected \<open>fetch\<close> is \<open>NetworkFailure\<close>.
\<close>

datatype 'n body = Unreadable | JsonText "'n jsval" | OtherText string

record 'n response =
  resp_ok :: bool
  resp_status :: nat
  content_type :: "string option"
  resp_body :: "'n body"

datatype 'n fetch_outcome = NetworkFailure | Responded "'n response"

text \<open>
  Lines 42 to 49: \<open>data\<close>, or \<open>None\<close> when an exception leaves the \<open>try\<close> block.
\<close>

definition read_body :: "'n response \<Rightarrow> 'n jsval option" where
  "read_body r =
     (let contentType = (case content_type r of None \<Rightarrow> [] | Some c \<Rightarrow> c)
      in if includes_str contentType ''application/json''
         then (case resp_body r of
                 Unreadable \<Rightarrow> None
               | JsonText v \<Rightarrow> Some v
               | OtherText text \<Rightarrow> None)
         else (case resp_body r of
                 Unreadable \<Rightarrow> None
               | JsonText v \<Rightarrow> Some v
               | OtherText text \<Rightarrow> Some (JObj [(''message'', JStr text)])))"

text \<open>
  Line 52: \<open>data.download_url || (data.download_path ? `/api${data.download_path}` :
  undefined)\<close>; \<open>None\<close> when the template literal throws.
\<close>

definition download_url_of :: "'n number_ops \<Rightarrow> 'n jsval \<Rightarrow> 'n jsval option" where
  "download_url_of ops data =
     (if truthy ops (field data ''download_url'') then Some (field data ''download_url'')
      else if truthy ops (field data ''download_path'')
      then map_option (\<lambda>p. JStr (''/api'' @ p)) (to_string ops (field data ''download_path''))
      else Some JUndefined)"

text \<open>Lines 53 and 54: \<open>secText\<close>.\<close>

definition secText :: "'n number_ops \<Rightarrow> 'n jsval \<Rightarrow> string" where
  "secText ops data =
     (case field data ''duration_ms'' of
        JNum ms \<Rightarrow> elapsed_label @ seconds_toFixed2 ops ms @ ''s''
      | _ \<Rightarrow> [])"

text \<open>
  Line 63, the message of the failure branch:
  \<open>(data.message && typeof data.duration_ms === 'number' ? `${data.message}...` :
  data.message) || data.error || `... (HTTP ${response.status})`\<close>. The conditional
  binds weaker than \<open>&&\<close> and stronger than \<open>||\<close>. \<open>None\<close> when the template
  literal throws.
\<close>

definition failure_message ::
  "'n number_ops \<Rightarrow> 'n response \<Rightarrow> 'n jsval \<Rightarrow> 'n jsval option" where
  "failure_message ops r data =
     (let first =
        (case field data ''duration_ms'' of
           JNum ms \<Rightarrow>
             if truthy ops (field data ''message'')
             then map_option (\<lambda>m. JStr (m @ comma_elapsed_label @ seconds_toFixed2 ops ms @ ''s''))
                    (to_string ops (field data ''message''))
             else Some (field data ''message'')
         | _ \<Rightarrow> Some (field data ''message''))
      in map_option
           (\<lambda>v. if truthy ops v then v
                else if truthy ops (field data ''error'') then field data ''error''
                else JStr (msg_failed_http @ string_of_nat (resp_status r) @ '')''))
           first)"

text \<open>
  Lines 51 to 65: the \<open>setResult\<close> of the \<open>try\<close> block once \<open>data\<close> is there, or
  \<open>None\<close> when an exception is thrown first. Both branches read a property of
  \<open>data\<close> before anything else, which throws when \<open>data\<close> is \<open>null\<close>.
\<close>

definition result_of_data :: "'n number_ops \<Rightarrow> 'n response \<Rightarrow> 'n jsval \<Rightarrow> 'n result option" where
  "result_of_data ops r data =
     (if nullish data then None
      else if resp_ok r \<and>
              (truthy ops (field data ''download_url'') \<or> truthy ops (field data ''download_path''))
      then map_option
             (\<lambda>url. \<lparr>status = Some Success,
                     message = JStr (if secText ops data \<noteq> [] then msg_done @ secText ops data
                                     else msg_done),
                     downloadUrl = url\<rparr>)
             (download_url_of ops data)
      else map_option
             (\<lambda>m. \<lparr>status = Some Error, message = m, downloadUrl = JUndefined\<rparr>)
             (failure_message ops r data))"

text \<open>
  The rest of \<open>handleProcess\<close>, from the settling of \<open>fetch\<close>: the \<open>try\<close> block, the
  \<open>catch\<close> for every exception, and the \<open>finally\<close>.
\<close>

definition handleProcess_complete ::
  "'n number_ops \<Rightarrow> 'n fetch_outcome \<Rightarrow> 'n app_state \<Rightarrow> 'n app_state" where
  "handleProcess_complete ops outcome st =
     (let tried =
        (case outcome of
           NetworkFailure \<Rightarrow> None
         | Responded r \<Rightarrow>
             (case read_body r of None \<Rightarrow> None | Some data \<Rightarrow> result_of_data ops r data))
      in st\<lparr>result :=
               (case tried of
                  Some res \<Rightarrow> res
                | None \<Rightarrow> \<lparr>status = Some Error, message = JStr msg_network_error,
                            downloadUrl = JUndefined\<rparr>),
             isProcessing := False\<rparr>)"

subsection \<open>The call of \<open>fetch\<close>\<close>

text \<open>
  \<open>fetch\<close> is the browser's. Before it creates a request it reads the \<open>headers\<close>
  of its argument (Fetch standard, the \<open>Headers\<close> class): a header value is
  converted to a byte string, which throws a \<open>TypeError\<close> when the string has a code
  unit above \<open>0xFF\<close>; leading and trailing HTTP whitespace (tab, line feed, carriage
  return, space) is stripped from it; and what is left must contain no \<open>NUL\<close>, line
  feed or carriage return, or a \<open>TypeError\<close> is thrown. The call then rejects and no
  request exists. In the UTF-8 bytes that model a string here, a code unit above
  \<open>0xFF\<close> shows as a lead byte of \<open>0xC4\<close> or more.
\<close>

definition is_http_whitespace :: "char \<Rightarrow> bool" where
  "is_http_whitespace c = (c \<in> set [CHR 0x09, CHR 0x0A, CHR 0x0D, CHR '' ''])"

definition strip_http_whitespace :: "string \<Rightarrow> string" where
  "strip_http_whitespace v =
     rev (dropWhile is_http_whitespace (rev (dropWhile is_http_whitespace v)))"

definition header_value_accepted :: "string \<Rightarrow> bool" where
  "header_value_accepted v =
     (list_all (\<lambda>c. (of_char c :: nat) < 0xC4) v \<and>
      list_all (\<lambda>c. c \<noteq> CHR 0x00 \<and> c \<noteq> CHR 0x0A \<and> c \<noteq> CHR 0x0D) (strip_http_whitespace v))"

definition fetch_accepts :: "request \<Rightarrow> bool" where
  "fetch_accepts req = list_all (\<lambda>h. header_value_accepted (snd h)) (req_headers req)"

text \<open>
  One run of \<open>handleProcess\<close> against a network \<open>net\<close>, which settles every request
  that is sent: the requests issued, and the state at the end. When \<open>fetch\<close> throws
  on its argument no request is issued, and the \<open>catch\<close> block runs as for any other
  rejection.
\<close>

definition handleProcess ::
  "'n number_ops \<Rightarrow> (request \<Rightarrow> 'n fetch_outcome) \<Rightarrow> 'n app_state \<Rightarrow> request list \<times> 'n app_state" where
  "handleProcess ops net st =
     (case handleProcess_begin st of
        None \<Rightarrow> ([], st)
      | Some (req, running) \<Rightarrow>
          if fetch_accepts req then ([req], handleProcess_complete ops (net req) running)
          else ([], handleProcess_complete ops NetworkFailure running))"

section \<open>The command presets (CommandInput.tsx)\<close>

record preset =
  preset_name :: string
  preset_command :: string

text \<open>
  \<open>commonCommands\<close>, in the order of the source. The labels are the source's, their
  Chinese characters (U+7F16 U+7801; U+538B U+7F29 U+89C6 U+9891; U+63D0 U+53D6 U+97F3
  U+9891; U+8F6C U+7801 U+4E3A) as UTF-8 bytes.
\<close>

definition commonCommands :: "preset list" where
  "commonCommands =
   [\<lparr>preset_name = ''H.264 '' @ [CHR 0xE7, CHR 0xBC, CHR 0x96, CHR 0xE7, CHR 0xA0, CHR 0x81],
     preset_command = ''ffmpeg -y -i {input} -c:v libx264 -b:v 4M -c:a aac {output}''\<rparr>,
    \<lparr>preset_name = ''H.265 '' @ [CHR 0xE7, CHR 0xBC, CHR 0x96, CHR 0xE7, CHR 0xA0, CHR 0x81],
     preset_command = ''ffmpeg -y -i {input} -c:v libx265 -b:v 4M -c:a aac {output}''\<rparr>,
    \<lparr>preset_name = ''NVENC H.264'',
     preset_command = ''ffmpeg -y -i {input} -c:v h264_nvenc -b:v 4M -c:a aac {output}''\<rparr>,
    \<lparr>preset_name = ''NVENC H.265'',
     preset_command = ''ffmpeg -y -i {input} -c:v hevc_nvenc -b:v 4M -c:a aac {output}''\<rparr>,
    \<lparr>preset_name = [CHR 0xE5, CHR 0x8E, CHR 0x8B, CHR 0xE7, CHR 0xBC, CHR 0xA9,
             CHR 0xE8, CHR 0xA7, CHR 0x86, CHR 0xE9, CHR 0xA2, CHR 0x91],
     preset_command = ''ffmpeg -y -i {input} -c:v libx264 -crf 23 -c:a aac {output}''\<rparr>,
    \<lparr>preset_name = [CHR 0xE6, CHR 0x8F, CHR 0x90, CHR 0xE5, CHR 0x8F, CHR 0x96,
             CHR 0xE9, CHR 0x9F, CHR 0xB3, CHR 0xE9, CHR 0xA2, CHR 0x91],
     preset_command = ''ffmpeg -y -i {input} -vn -acodec copy {output}''\<rparr>,
    \<lparr>preset_name = [CHR 0xE8, CHR 0xBD, CHR 0xAC, CHR 0xE7, CHR 0xA0, CHR 0x81,
             CHR 0xE4, CHR 0xB8, CHR 0xBA] @ ''MP4'',
     preset_command = ''ffmpeg -y -i {input} -c copy {output}''\<rparr>]"

text \<open>
  The invariants of a command template, in the words of the data model: the
  executable token is the first word, and each placeholder occurs exactly once.
\<close>

definition template_invariants :: "string \<Rightarrow> bool" where
  "template_invariants raw =
     (first_word raw = ''ffmpeg'' \<and>
      occurrences ''{input}'' raw = 1 \<and>
      occurrences ''{output}'' raw = 1)"

section \<open>The command template engine of the service\<close>

text \<open>The request-scoped errors of the service (spec, section 7).\<close>

datatype error =
    StorageError | InvalidPathError | UploadError | JobNotFoundError
  | JobAlreadyBoundError | TemplateError | NotFoundError

text \<open>The executable-invocation token a template has to begin with.\<close>

definition required_token :: string where
  "required_token = ''ffmpeg''"

text \<open>
  Modelled from the spec: the service's \<open>validate\<close> (the backend \<open>app.py\<close> is not
  among the sources). It fails with \<open>TemplateError\<close> unless the string, after
  leading and trailing whitespace is trimmed, begins with the required token, the
  substring \<open>{input}\<close> occurs exactly once and the substring \<open>{output}\<close> occurs
  exactly once; otherwise it gives the validated template.
\<close>

definition validate :: "string \<Rightarrow> error + string" where
  "validate raw =
     (if startsWith (trim raw) required_token \<and>
         occurrences ''{input}'' raw = 1 \<and>
         occurrences ''{output}'' raw = 1
      then Inr raw else Inl TemplateError)"

text \<open>
  Modelled from the spec: the processing step of a request, \<open>validate\<close>, then \<open>bind\<close>,
  then the run of the bound command under the execution gate. The state is the list of
  the argument vectors of the external processes spawned so far. How \<open>bind\<close> splits
  the template into arguments is left open by the spec; it is a parameter.
\<close>

definition process_command ::
  "(string \<Rightarrow> string \<Rightarrow> string \<Rightarrow> string list) \<Rightarrow> string \<Rightarrow> string \<Rightarrow> string \<Rightarrow>
   string list list \<Rightarrow> (error + string list) \<times> string list list" where
  "process_command bind raw input_path output_path spawned =
     (case validate raw of
        Inl e \<Rightarrow> (Inl e, spawned)
      | Inr template \<Rightarrow>
          (let argv = bind template input_path output_path
           in (Inr argv, spawned @ [argv])))"

section \<open>The one-step upload operation of the service\<close>

text \<open>
  Modelled from the spec: the storage layout (section 4.1; the backend \<open>app.py\<close> is
  not among the sources). A job's directory lies under the storage root and is named
  after the job's identifier. \<open>resolve_path\<close> rejects a filename that contains a path
  separator or is a parent-directory segment with \<open>InvalidPathError\<close>.
\<close>

definition job_directory :: "string \<Rightarrow> string \<Rightarrow> string" where
  "job_directory storage_root job_id = storage_root @ ''/'' @ job_id"

definition resolve_path :: "string \<Rightarrow> string \<Rightarrow> error + string" where
  "resolve_path directory filename =
     (if CHR ''/'' \<in> set filename \<or> CHR 0x5C \<in> set filename \<or> filename = ''..''
      then Inl InvalidPathError
      else Inr (directory @ ''/'' @ filename))"

text \<open>
  Modelled from the spec: \<open>bind_input\<close> of the job registry (section 4.2). It stores
  the upload under its sanitized name and fails with \<open>UploadError\<close> when the stream is
  empty.
\<close>

definition bind_input :: "string \<Rightarrow> string \<Rightarrow> string \<Rightarrow> error + string" where
  "bind_input directory uploaded_filename bytes =
     (case resolve_path directory uploaded_filename of
        Inl e \<Rightarrow> Inl e
      | Inr input_path \<Rightarrow> if bytes = [] then Inl UploadError else Inr input_path)"

text \<open>
  The form of a one-step request: the file (name and bytes), the command template and
  the optional output filename. The reply names the input, the output and the
  download reference (the job identifier and the duration are left out of the model).
\<close>

record upload_form =
  form_filename :: string
  form_bytes :: string
  form_command :: string
  form_output_filename :: "string option"

record upload_reply =
  reply_input :: string
  reply_output :: string
  reply_download :: string

text \<open>
  The output name taken when the form gives none: the README documents
  \<open>output_filename\<close> as optional, with the default \<open>output.mp4\<close>.
\<close>

definition fallback_output_name :: string where
  "fallback_output_name = ''output.mp4''"

text \<open>
  Modelled from the spec: the one-step upload and process operation (section 6):
  file bytes, command template and optional output filename go through \<open>create_job\<close>,
  \<open>bind_input\<close>, \<open>validate\<close>, \<open>bind\<close> and the run of the bound command; the output
  filename is sanitized through the storage layout before it is substituted. The job
  identifier is given (how a fresh one is drawn is outside the model).
\<close>

definition one_step_upload ::
  "(string \<Rightarrow> string \<Rightarrow> string \<Rightarrow> string list) \<Rightarrow> string \<Rightarrow> string \<Rightarrow> upload_form \<Rightarrow>
   string list list \<Rightarrow> (error + upload_reply) \<times> string list list" where
  "one_step_upload bind storage_root job_id form spawned =
     (let directory = job_directory storage_root job_id;
          output_name = (case form_output_filename form of
                           None \<Rightarrow> fallback_output_name
                         | Some n \<Rightarrow> n)
      in case bind_input directory (form_filename form) (form_bytes form) of
           Inl e \<Rightarrow> (Inl e, spawned)
         | Inr input_path \<Rightarrow>
             (case resolve_path directory output_name of
                Inl e \<Rightarrow> (Inl e, spawned)
              | Inr output_path \<Rightarrow>
                  (case process_command bind (form_command form) input_path output_path spawned of
                     (Inl e, spawned') \<Rightarrow> (Inl e, spawned')
                   | (Inr argv, spawned') \<Rightarrow>
                       (Inr \<lparr>reply_input = form_filename form,
                             reply_output = output_name,
                             reply_download = ''/download/'' @ job_id @ ''/'' @ output_name\<rparr>,
                        spawned'))))"

section \<open>Concrete inputs\<close>

text \<open>Two files a user can pick, a video and a text file.\<close>

definition clip :: File where
  "clip = \<lparr>file_name = ''clip.mp4'', file_type = ''video/mp4'', file_content = ''abc''\<rparr>"

definition notes_txt :: File where
  "notes_txt = \<lparr>file_name = ''notes.txt'', file_type = ''text/plain'', file_content = ''hello''\<rparr>"

definition raw_clip :: File where
  "raw_clip = \<lparr>file_name = ''clip'', file_type = ''video/mp4'', file_content = ''abc''\<rparr>"

text \<open>
  A state in which the process action can run, and the same state with a command
  typed on two lines in the command field (a \<open>textarea\<close>).
\<close>

definition ready_state :: "nat app_state" where
  "ready_state =
     \<lparr>cur_file = Some clip,
      command = ''ffmpeg -y -i {input} -c copy {output}'',
      outputFilename = ''clip_processed.mp4'',
      isProcessing = False,
      result = \<lparr>status = None, message = JUndefined, downloadUrl = JUndefined\<rparr>\<rparr>"

definition two_line_command :: string where
  "two_line_command = ''ffmpeg -y -i {input}'' @ [CHR 0x0A] @ ''-c copy {output}''"

definition two_line_state :: "nat app_state" where
  "two_line_state = ready_state\<lparr>command := two_line_command\<rparr>"

text \<open>
  The state while the request of \<open>ready_state\<close> is in flight, and four responses:
  a success response with the fields the README lists, a failure response with a
  message and a duration, a failure response with an \<open>error\<close> field and no
  \<open>message\<close>, and a gateway error page that is not JSON.
\<close>

definition in_flight_state :: "nat app_state" where
  "in_flight_state =
     ready_state\<lparr>isProcessing := True,
                 result := \<lparr>status = Some Info, message = JStr msg_uploading,
                            downloadUrl = JUndefined\<rparr>\<rparr>"

definition success_response :: "nat response" where
  "success_response =
     \<lparr>resp_ok = True, resp_status = 200, content_type = Some ''application/json'',
      resp_body = JsonText (JObj
        [(''status'', JStr ''success''), (''message'', JStr ''ok''), (''job_id'', JStr ''j1''),
         (''input'', JStr ''clip.mp4''), (''output'', JStr ''clip_processed.mp4''),
         (''download_path'', JStr ''/download/j1/clip_processed.mp4''),
         (''duration_ms'', JNum 1234)])\<rparr>"

definition failed_response :: "nat response" where
  "failed_response =
     \<lparr>resp_ok = False, resp_status = 400, content_type = Some ''application/json'',
      resp_body = JsonText (JObj
        [(''status'', JStr ''error''), (''message'', JStr ''ffmpeg failed''),
         (''stderr'', JStr ''Unknown encoder''), (''duration_ms'', JNum 1500)])\<rparr>"

definition error_only_response :: "nat response" where
  "error_only_response =
     \<lparr>resp_ok = False, resp_status = 500, content_type = Some ''application/json'',
      resp_body = JsonText (JObj
        [(''error'', JStr ''Internal Server Error''), (''duration_ms'', JNum 1500)])\<rparr>"

definition gateway_response :: "nat response" where
  "gateway_response =
     \<lparr>resp_ok = False, resp_status = 502, content_type = Some ''text/html'',
      resp_body = OtherText ''Bad Gateway''\<rparr>"




text \<open>A one-step form without an output filename.\<close>

definition form_without_output :: upload_form where
  "form_without_output =
     \<lparr>form_filename = ''clip.mp4'', form_bytes = ''abc'',
      form_command = ''ffmpeg -y -i {input} -c copy {output}'',
      form_output_filename = None\<rparr>"


section \<open>The number instance at the durations used below\<close>

lemma fixed2_of_ms_values:
  "fixed2_of_ms 1234 = ''1.23''" "fixed2_of_ms 1500 = ''1.50''"
  by (simp_all add: fixed2_of_ms_def scale_up.simps string_of_nat.simps)

section \<open>Properties of the presets\<close>

text \<open>
  C3. The preset list has seven entries, and the command of every one of them has
  \<open>ffmpeg\<close> as its first word, contains \<open>{input}\<close> exactly once and contains
  \<open>{output}\<close> exactly once.
\<close>

theorem presets_satisfy_template_invariants:
  "length commonCommands = 7 \<and>
   list_all (\<lambda>p. template_invariants (preset_command p)) commonCommands"
  by (simp add: commonCommands_def template_invariants_def first_word_def trim_def is_space_def)


section \<open>The default output filename\<close>

lemma ext_matches_here_dot_inside:
  "CHR ''.'' \<in> set cs \<Longrightarrow> \<not> ext_matches_here (c # cs)"
  by (auto simp: list_all_iff)

lemma replace_ext_strips:
  assumes "ext \<noteq> []" "CHR ''.'' \<notin> set ext" "CHR ''/'' \<notin> set ext"
  shows "replace_ext (base @ CHR ''.'' # ext) = base"
proof (induction base)
  case Nil
  from assms show ?case by (auto simp: list_all_iff)
next
  case (Cons c cs)
  have "\<not> ext_matches_here (c # cs @ CHR ''.'' # ext)"
    by (rule ext_matches_here_dot_inside) simp
  with Cons show ?case by simp
qed

lemma replace_ext_keeps:
  assumes "\<forall>base ext. nm = base @ CHR ''.'' # ext \<longrightarrow>
             ext = [] \<or> CHR ''.'' \<in> set ext \<or> CHR ''/'' \<in> set ext"
  shows "replace_ext nm = nm"
  using assms
proof (induction nm)
  case Nil
  show ?case by simp
next
  case (Cons c cs)
  have no_match: "\<not> ext_matches_here (c # cs)"
  proof
    assume m: "ext_matches_here (c # cs)"
    then have "c # cs = [] @ CHR ''.'' # cs" by simp
    with Cons.prems have "cs = [] \<or> CHR ''.'' \<in> set cs \<or> CHR ''/'' \<in> set cs" by blast
    with m show False by (auto simp: list_all_iff)
  qed
  have "\<forall>base ext. cs = base @ CHR ''.'' # ext \<longrightarrow>
          ext = [] \<or> CHR ''.'' \<in> set ext \<or> CHR ''/'' \<in> set ext"
  proof (intro allI impI)
    fix base ext assume "cs = base @ CHR ''.'' # ext"
    then have "c # cs = (c # base) @ CHR ''.'' # ext" by simp
    with Cons.prems show "ext = [] \<or> CHR ''.'' \<in> set ext \<or> CHR ''/'' \<in> set ext" by blast
  qed
  with Cons.IH have "replace_ext cs = cs" by blast
  with no_match show ?case by simp
qed

text \<open>
  C10. With a file selected and the output filename empty, the effect hook sets the
  output filename to the file's name without its final extension, followed by
  \<open>_processed.mp4\<close>. The final extension is the last dot with the non-empty run
  of characters after it, none of them a dot or a slash; a name without one is kept
  whole. An output filename that is not empty is never changed by the hook.
\<close>

theorem default_output_filename:
  "(entered \<noteq> [] \<longrightarrow> outputFilename_after fo entered = entered) \<and>
   outputFilename_after (Some f) [] = replace_ext (file_name f) @ ''_processed.mp4'' \<and>
   (file_name f = base @ ''.'' @ ext \<and> ext \<noteq> [] \<and> CHR ''.'' \<notin> set ext \<and> CHR ''/'' \<notin> set ext
      \<longrightarrow> outputFilename_after (Some f) [] = base @ ''_processed.mp4'') \<and>
   ((\<forall>b e. file_name f = b @ ''.'' @ e \<longrightarrow> e = [] \<or> CHR ''.'' \<in> set e \<or> CHR ''/'' \<in> set e)
      \<longrightarrow> outputFilename_after (Some f) [] = file_name f @ ''_processed.mp4'')"
proof (intro conjI impI)
  assume "entered \<noteq> []"
  then show "outputFilename_after fo entered = entered"
    by (simp add: outputFilename_after_def outputFilename_effect_def split: option.splits)
next
  show "outputFilename_after (Some f) [] = replace_ext (file_name f) @ ''_processed.mp4''"
    by (simp add: outputFilename_after_def outputFilename_effect_def)
next
  assume "file_name f = base @ ''.'' @ ext \<and> ext \<noteq> [] \<and> CHR ''.'' \<notin> set ext \<and> CHR ''/'' \<notin> set ext"
  then show "outputFilename_after (Some f) [] = base @ ''_processed.mp4''"
    using replace_ext_strips [of ext base]
    by (simp add: outputFilename_after_def outputFilename_effect_def)
next
  assume "\<forall>b e. file_name f = b @ ''.'' @ e \<longrightarrow> e = [] \<or> CHR ''.'' \<in> set e \<or> CHR ''/'' \<in> set e"
  then have "replace_ext (file_name f) = file_name f"
    by (intro replace_ext_keeps) simp
  then show "outputFilename_after (Some f) [] = file_name f @ ''_processed.mp4''"
    by (simp add: outputFilename_after_def outputFilename_effect_def)
qed

theorem default_output_filename_witness:
  "outputFilename_after (Some \<lparr>file_name = ''clip.final.mp4'', file_type = ''video/mp4'',
       file_content = ''abc''\<rparr>) [] = ''clip.final_processed.mp4'' \<and>
   outputFilename_after (Some clip) ''out.mkv'' = ''out.mkv'' \<and>
   outputFilename_after (Some raw_clip) [] = ''clip_processed.mp4''"
proof -
  let ?f = "\<lparr>file_name = ''clip.final.mp4'', file_type = ''video/mp4'', file_content = ''abc''\<rparr>"
  have a: "outputFilename_after (Some ?f) [] = ''clip.final_processed.mp4''"
    using default_output_filename [where f = ?f and base = "''clip.final''" and ext = "''mp4''"]
    by simp
  have b: "outputFilename_after (Some clip) ''out.mkv'' = ''out.mkv''"
    using default_output_filename [where fo = "Some clip" and entered = "''out.mkv''"]
    by simp
  have "\<forall>b e. file_name raw_clip = b @ ''.'' @ e \<longrightarrow>
          e = [] \<or> CHR ''.'' \<in> set e \<or> CHR ''/'' \<in> set e"
  proof (intro allI impI)
    fix b e assume "file_name raw_clip = b @ ''.'' @ e"
    then have "CHR ''.'' \<in> set (file_name raw_clip)" by simp
    then show "e = [] \<or> CHR ''.'' \<in> set e \<or> CHR ''/'' \<in> set e"
      by (simp add: raw_clip_def)
  qed
  with default_output_filename [where f = raw_clip]
  have c: "outputFilename_after (Some raw_clip) [] = ''clip_processed.mp4''"
    by (simp add: raw_clip_def)
  from a b c show ?thesis by simp
qed

section \<open>The file picker\<close>

lemma file_after_cases:
  "file_after ev cur = cur \<or> file_after ev cur = None \<or>
   (\<exists>v. file_after ev cur = Some v \<and> is_video v)"
proof (cases ev)
  case (Drop fs)
  then show ?thesis
    by (cases fs) (simp_all add: handleDrop_def is_video_def)
next
  case (Select fs)
  then show ?thesis
  proof (cases fs)
    case None
    with Select show ?thesis by (simp add: handleFileSelect_def)
  next
    case (Some l)
    with Select show ?thesis
      by (cases l) (simp_all add: handleFileSelect_def is_video_def)
  qed
next
  case Clear
  then show ?thesis by (simp add: clearFile_def)
qed

lemma null_or_video_step:
  "null_or_video cur \<Longrightarrow> null_or_video (file_after ev cur)"
  using file_after_cases [of ev cur]
  by (auto simp: null_or_video_def)

lemma null_or_video_foldl:
  "null_or_video cur \<Longrightarrow> null_or_video (foldl (\<lambda>c ev. file_after ev c) cur evs)"
  by (induction evs arbitrary: cur) (simp_all add: null_or_video_step)

text \<open>
  C9. After any sequence of drops, selections and clears, starting with no file, the
  held file is null or a video file (its MIME type begins with \<open>video/\<close>). A
  dropped or selected file that is not a video leaves the held file as it was, and
  an event makes a file the held one only if it is a video.
\<close>

theorem held_file_null_or_video:
  "null_or_video (file_state evs) \<and>
   (\<not> is_video v \<longrightarrow>
      file_after (Drop (v # fs)) cur = cur \<and> file_after (Select (Some (v # fs))) cur = cur) \<and>
   (file_after ev cur = Some v \<longrightarrow> cur = Some v \<or> is_video v)"
proof (intro conjI impI)
  show "null_or_video (file_state evs)"
    unfolding file_state_def by (rule null_or_video_foldl) (simp add: null_or_video_def)
next
  assume "\<not> is_video v"
  then show "file_after (Drop (v # fs)) cur = cur"
    by (simp add: handleDrop_def is_video_def)
next
  assume "\<not> is_video v"
  then show "file_after (Select (Some (v # fs))) cur = cur"
    by (simp add: handleFileSelect_def is_video_def)
next
  assume "file_after ev cur = Some v"
  with file_after_cases [of ev cur] show "cur = Some v \<or> is_video v"
    by auto
qed

theorem held_file_null_or_video_witness:
  "\<not> is_video notes_txt \<and>
   file_after (Drop [notes_txt]) (Some clip) = Some clip \<and>
   file_after (Select (Some [notes_txt, clip])) None = None \<and>
   file_after (Drop [clip]) None = Some clip \<and> is_video clip \<and>
   file_state [Drop [notes_txt], Select (Some [clip]), Drop [notes_txt]] = Some clip \<and>
   null_or_video (file_state [Drop [notes_txt], Select (Some [clip]), Drop [notes_txt]])"
  using held_file_null_or_video
    [where evs = "[Drop [notes_txt], Select (Some [clip]), Drop [notes_txt]]" and v = notes_txt
       and fs = "[]" and cur = "Some clip" and ev = Clear]
    held_file_null_or_video
    [where evs = "[]" and v = clip and fs = "[]" and cur = None and ev = "Drop [clip]"]
  by (simp add: clip_def notes_txt_def is_video_def file_state_def handleDrop_def
        handleFileSelect_def null_or_video_def)

section \<open>Template validation\<close>

text \<open>
  C1. A raw command string that, once trimmed, does not begin with the required
  executable token, or in which \<open>{input}\<close> does not occur exactly once, or in which
  \<open>{output}\<close> does not occur exactly once, fails validation with \<open>TemplateError\<close>,
  and processing it spawns no external process: the list of spawned processes is
  unchanged.
\<close>

theorem invalid_template_rejected:
  "\<not> startsWith (trim raw) required_token \<or>
   occurrences ''{input}'' raw \<noteq> 1 \<or>
   occurrences ''{output}'' raw \<noteq> 1 \<Longrightarrow>
   validate raw = Inl TemplateError \<and>
   process_command bind raw input_path output_path spawned = (Inl TemplateError, spawned)"
  by (auto simp: validate_def process_command_def)

theorem invalid_template_rejected_witness:
  "\<not> startsWith (trim ''cp {input} {output}'') required_token \<and>
   occurrences ''{input}'' ''ffmpeg -i {input} -i {input} {output}'' \<noteq> 1 \<and>
   occurrences ''{output}'' ''  ffmpeg -i {input} out.mp4 '' \<noteq> 1 \<and>
   validate ''cp {input} {output}'' = Inl TemplateError \<and>
   validate ''ffmpeg -i {input} -i {input} {output}'' = Inl TemplateError \<and>
   validate ''  ffmpeg -i {input} out.mp4 '' = Inl TemplateError \<and>
   process_command (\<lambda>t inp out. [t, inp, out]) ''cp {input} {output}'' ''/jobs/1/clip.mp4''
     ''/jobs/1/out.mp4'' [] = (Inl TemplateError, [])"
proof -
  have a: "\<not> startsWith (trim ''cp {input} {output}'') required_token"
    by (simp add: trim_def is_space_def required_token_def)
  have b: "occurrences ''{input}'' ''ffmpeg -i {input} -i {input} {output}'' \<noteq> 1"
    by simp
  have c: "occurrences ''{output}'' ''  ffmpeg -i {input} out.mp4 '' \<noteq> 1"
    by simp
  from a b c
    invalid_template_rejected [of "''cp {input} {output}''" "\<lambda>t inp out. [t, inp, out]"
      "''/jobs/1/clip.mp4''" "''/jobs/1/out.mp4''" "[]"]
    invalid_template_rejected [of "''ffmpeg -i {input} -i {input} {output}''"]
    invalid_template_rejected [of "''  ffmpeg -i {input} out.mp4 ''"]
  show ?thesis by blast
qed


section \<open>The upload request\<close>

text \<open>
  For a state in which a file, a command and an output filename are set: when the
  command is accepted as the value of the \<open>X-Command\<close> header, the process action
  issues exactly one request, a \<open>POST\<close> to \<open>/api/upload\<close> whose form fields are the
  file, the command and the output filename; when it is not, no request is issued.
\<close>

lemma upload_request_issued_iff_header_accepted:
  assumes "cur_file st = Some f" and "command st \<noteq> []" and "outputFilename st \<noteq> []"
  shows "fst (handleProcess ops net st) =
           (if header_value_accepted (command st)
            then [\<lparr>req_url = ''/api/upload'', req_method = ''POST'',
                   req_headers = [(''X-Command'', command st)],
                   req_body = [(''file'', FileField f), (''command'', TextField (command st)),
                               (''output_filename'', TextField (outputFilename st))]\<rparr>]
            else [])"
  using assms
  by (simp add: handleProcess_def handleProcess_begin_def upload_request_def fetch_accepts_def)

text \<open>
  C6. The claim: with a file, a non-empty command and a non-empty output filename set,
  the process action issues exactly one \<open>POST\<close> request to the upload endpoint. The
  code at a command typed on two lines: all three inputs are set, the command is not
  accepted as a header value (it has a line feed inside), and the run issues no
  request at all; it ends with the network error shown, although the network would
  have answered with success.
\<close>

theorem two_line_command_issues_no_request:
  "cur_file two_line_state = Some clip \<and>
   command two_line_state = two_line_command \<and>
   two_line_command \<noteq> [] \<and>
   outputFilename two_line_state = ''clip_processed.mp4'' \<and>
   canProcess two_line_state \<and>
   \<not> header_value_accepted two_line_command \<and>
   handleProcess nat_ops (\<lambda>req. Responded success_response) two_line_state =
     ([], two_line_state\<lparr>isProcessing := False,
                          result := \<lparr>status = Some Error, message = JStr msg_network_error,
                                     downloadUrl = JUndefined\<rparr>\<rparr>)"
  by (simp add: two_line_state_def two_line_command_def ready_state_def canProcess_def
        handleProcess_def handleProcess_begin_def handleProcess_complete_def
        upload_request_def fetch_accepts_def header_value_accepted_def
        strip_http_whitespace_def is_http_whitespace_def)

section \<open>The optional output filename\<close>

text \<open>
  C7. In the one-step upload and process operation the output filename is optional:
  a request without one is handled as the same request with the default output name,
  and when its file and its command are in order it is processed, that is, the bound
  command is run and the reply names the default output.
\<close>

theorem output_filename_optional:
  "one_step_upload bind storage_root job_id (form\<lparr>form_output_filename := None\<rparr>) spawned =
     one_step_upload bind storage_root job_id
       (form\<lparr>form_output_filename := Some fallback_output_name\<rparr>) spawned \<and>
   (form_output_filename form = None \<and>
    bind_input (job_directory storage_root job_id) (form_filename form) (form_bytes form)
      = Inr input_path \<and>
    validate (form_command form) = Inr template \<longrightarrow>
      one_step_upload bind storage_root job_id form spawned =
        (Inr \<lparr>reply_input = form_filename form,
              reply_output = fallback_output_name,
              reply_download = ''/download/'' @ job_id @ ''/'' @ fallback_output_name\<rparr>,
         spawned @ [bind template input_path
                      (job_directory storage_root job_id @ ''/'' @ fallback_output_name)]))"
proof (intro conjI impI)
  show "one_step_upload bind storage_root job_id (form\<lparr>form_output_filename := None\<rparr>) spawned =
     one_step_upload bind storage_root job_id
       (form\<lparr>form_output_filename := Some fallback_output_name\<rparr>) spawned"
    by (cases form) (simp add: one_step_upload_def Let_def split: sum.splits prod.splits)
next
  assume a: "form_output_filename form = None \<and>
    bind_input (job_directory storage_root job_id) (form_filename form) (form_bytes form)
      = Inr input_path \<and>
    validate (form_command form) = Inr template"
  have out: "resolve_path (job_directory storage_root job_id) fallback_output_name =
               Inr (job_directory storage_root job_id @ ''/'' @ fallback_output_name)"
    by (simp add: resolve_path_def fallback_output_name_def)
  from a out
  show "one_step_upload bind storage_root job_id form spawned =
        (Inr \<lparr>reply_input = form_filename form,
              reply_output = fallback_output_name,
              reply_download = ''/download/'' @ job_id @ ''/'' @ fallback_output_name\<rparr>,
         spawned @ [bind template input_path
                      (job_directory storage_root job_id @ ''/'' @ fallback_output_name)])"
    by (simp add: one_step_upload_def process_command_def Let_def)
qed

theorem output_filename_optional_witness:
  "form_output_filename form_without_output = None \<and>
   bind_input (job_directory ''/srv/jobs'' ''j1'') (form_filename form_without_output)
     (form_bytes form_without_output) = Inr ''/srv/jobs/j1/clip.mp4'' \<and>
   validate (form_command form_without_output) = Inr ''ffmpeg -y -i {input} -c copy {output}'' \<and>
   one_step_upload (\<lambda>t inp out. [t, inp, out]) ''/srv/jobs'' ''j1'' form_without_output [] =
     (Inr \<lparr>reply_input = ''clip.mp4'', reply_output = ''output.mp4'',
           reply_download = ''/download/j1/output.mp4''\<rparr>,
      [[''ffmpeg -y -i {input} -c copy {output}'', ''/srv/jobs/j1/clip.mp4'',
        ''/srv/jobs/j1/output.mp4'']])"
proof -
  have a: "form_output_filename form_without_output = None"
    by (simp add: form_without_output_def)
  have b: "bind_input (job_directory ''/srv/jobs'' ''j1'') (form_filename form_without_output)
     (form_bytes form_without_output) = Inr ''/srv/jobs/j1/clip.mp4''"
    by (simp add: bind_input_def resolve_path_def job_directory_def form_without_output_def)
  have c: "validate (form_command form_without_output)
             = Inr ''ffmpeg -y -i {input} -c copy {output}''"
    by (simp add: validate_def form_without_output_def trim_def is_space_def required_token_def)
  have d: "form_filename form_without_output = ''clip.mp4''"
    by (simp add: form_without_output_def)
  from a b c
    output_filename_optional [where bind = "\<lambda>t inp out. [t, inp, out]"
      and storage_root = "''/srv/jobs''" and job_id = "''j1''" and form = form_without_output
      and spawned = "[]" and input_path = "''/srv/jobs/j1/clip.mp4''"
      and template = "''ffmpeg -y -i {input} -c copy {output}''"]
  have "one_step_upload (\<lambda>t inp out. [t, inp, out]) ''/srv/jobs'' ''j1'' form_without_output [] =
        (Inr \<lparr>reply_input = form_filename form_without_output,
              reply_output = fallback_output_name,
              reply_download = ''/download/'' @ ''j1'' @ ''/'' @ fallback_output_name\<rparr>,
         [] @ [[''ffmpeg -y -i {input} -c copy {output}'', ''/srv/jobs/j1/clip.mp4'',
                job_directory ''/srv/jobs'' ''j1'' @ ''/'' @ fallback_output_name]])"
    by blast
  with a b c d show ?thesis
    by (simp add: fallback_output_name_def job_directory_def)
qed

section \<open>The outcome of the process action\<close>

lemma msg_nonempty [simp]:
  "msg_done \<noteq> []" "msg_network_error \<noteq> []" "msg_failed_http \<noteq> []"
  "comma_elapsed_label \<noteq> []" "elapsed_label \<noteq> []"
  by (simp_all add: msg_done_def msg_network_error_def msg_failed_http_def
        comma_elapsed_label_def elapsed_label_def)



lemma nullish_field [simp]: "nullish data \<Longrightarrow> field data k = JUndefined"
  by (cases data) simp_all








section \<open>The elapsed time in the message\<close>

text \<open>
  A failure response with a numeric \<open>duration_ms\<close> and an \<open>error\<close> field, but no
  \<open>message\<close>: the message shown is the \<open>error\<close> field alone. It contains neither
  the rendering \<open>1.50\<close> of the elapsed time nor the label that introduces it.
\<close>

theorem failure_without_message_omits_elapsed_time:
  "field (JObj [(''error'', JStr ''Internal Server Error''), (''duration_ms'', JNum (1500::nat))])
     ''duration_ms'' = JNum 1500 \<and>
   resp_body error_only_response =
     JsonText (JObj [(''error'', JStr ''Internal Server Error''), (''duration_ms'', JNum 1500)]) \<and>
   result (handleProcess_complete nat_ops (Responded error_only_response) in_flight_state) =
     \<lparr>status = Some Error, message = JStr ''Internal Server Error'', downloadUrl = JUndefined\<rparr> \<and>
   seconds_toFixed2 nat_ops 1500 = ''1.50'' \<and>
   \<not> includes_str ''Internal Server Error'' ''1.50'' \<and>
   \<not> includes_str ''Internal Server Error'' elapsed_label"
  by (simp add: error_only_response_def handleProcess_complete_def read_body_def
        result_of_data_def failure_message_def nat_ops_def fixed2_of_ms_values
        string_of_nat.simps elapsed_label_def)

text \<open>
  C5, as the code has it, for a response whose body was read. When the action
  reports success, the message is the completion text, followed by the label and the
  elapsed seconds exactly when \<open>duration_ms\<close> is a number. On the failure branch the
  elapsed seconds are appended, to the message of the response, only when
  \<open>duration_ms\<close> is a number and the response has a non-empty message (\<open>m\<close> is its
  string form); when \<open>duration_ms\<close> is not a number or the response has no message,
  the message shown is the first non-empty one of the response's message, its
  \<open>error\<close> field and the text with the HTTP status, with no elapsed time added.
\<close>

theorem elapsed_time_in_message:
  assumes body: "read_body r = Some data" and nn: "\<not> nullish data"
  shows
  "(status (result (handleProcess_complete ops (Responded r) st)) = Some Success \<longrightarrow>
      message (result (handleProcess_complete ops (Responded r) st)) =
        (case field data ''duration_ms'' of
           JNum ms \<Rightarrow> JStr (msg_done @ elapsed_label @ seconds_toFixed2 ops ms @ ''s'')
         | _ \<Rightarrow> JStr msg_done)) \<and>
   (\<not> (resp_ok r \<and> (truthy ops (field data ''download_url'') \<or>
                      truthy ops (field data ''download_path''))) \<longrightarrow>
      (field data ''duration_ms'' = JNum ms \<and> truthy ops (field data ''message'') \<and>
       to_string ops (field data ''message'') = Some m \<longrightarrow>
         message (result (handleProcess_complete ops (Responded r) st)) =
           JStr (m @ comma_elapsed_label @ seconds_toFixed2 ops ms @ ''s'')) \<and>
      (\<not> is_number (field data ''duration_ms'') \<or> \<not> truthy ops (field data ''message'') \<longrightarrow>
         message (result (handleProcess_complete ops (Responded r) st)) =
           (if truthy ops (field data ''message'') then field data ''message''
            else if truthy ops (field data ''error'') then field data ''error''
            else JStr (msg_failed_http @ string_of_nat (resp_status r) @ '')''))))"
proof (intro conjI impI)
  assume s: "status (result (handleProcess_complete ops (Responded r) st)) = Some Success"
  show "message (result (handleProcess_complete ops (Responded r) st)) =
        (case field data ''duration_ms'' of
           JNum ms \<Rightarrow> JStr (msg_done @ elapsed_label @ seconds_toFixed2 ops ms @ ''s'')
         | _ \<Rightarrow> JStr msg_done)"
  proof (cases "result_of_data ops r data")
    case None
    with body s show ?thesis by (simp add: handleProcess_complete_def)
  next
    case (Some res)
    with body s have "status res = Some Success"
      by (simp add: handleProcess_complete_def)
    with Some nn have "message res = JStr (msg_done @ secText ops data)"
      by (auto simp: result_of_data_def split: if_splits)
    with Some body show ?thesis
      by (simp add: handleProcess_complete_def secText_def split: jsval.splits)
  qed
next
  assume fb: "\<not> (resp_ok r \<and> (truthy ops (field data ''download_url'') \<or>
                      truthy ops (field data ''download_path'')))"
  assume "field data ''duration_ms'' = JNum ms \<and> truthy ops (field data ''message'') \<and>
       to_string ops (field data ''message'') = Some m"
  with fb nn body
  show "message (result (handleProcess_complete ops (Responded r) st)) =
           JStr (m @ comma_elapsed_label @ seconds_toFixed2 ops ms @ ''s'')"
    by (auto simp: handleProcess_complete_def result_of_data_def failure_message_def)
next
  assume fb: "\<not> (resp_ok r \<and> (truthy ops (field data ''download_url'') \<or>
                      truthy ops (field data ''download_path'')))"
  assume "\<not> is_number (field data ''duration_ms'') \<or> \<not> truthy ops (field data ''message'')"
  with fb nn body
  show "message (result (handleProcess_complete ops (Responded r) st)) =
           (if truthy ops (field data ''message'') then field data ''message''
            else if truthy ops (field data ''error'') then field data ''error''
            else JStr (msg_failed_http @ string_of_nat (resp_status r) @ '')''))"
    by (auto simp: handleProcess_complete_def result_of_data_def failure_message_def
          split: jsval.splits)
qed


theorem elapsed_time_in_message_witness:
  "message (result (handleProcess_complete nat_ops (Responded success_response) in_flight_state))
     = JStr (msg_done @ elapsed_label @ ''1.23s'') \<and>
   message (result (handleProcess_complete nat_ops (Responded failed_response) in_flight_state))
     = JStr (''ffmpeg failed'' @ comma_elapsed_label @ ''1.50s'') \<and>
   message (result (handleProcess_complete nat_ops (Responded error_only_response) in_flight_state))
     = JStr ''Internal Server Error'' \<and>
   message (result (handleProcess_complete nat_ops (Responded gateway_response) in_flight_state))
     = JStr ''Bad Gateway''"
proof -
  let ?fin = "\<lambda>r. handleProcess_complete nat_ops (Responded r) in_flight_state"
  have fx: "seconds_toFixed2 nat_ops 1234 = ''1.23''" "seconds_toFixed2 nat_ops 1500 = ''1.50''"
    by (simp_all add: nat_ops_def fixed2_of_ms_values string_of_nat.simps)
  have s1: "read_body success_response = Some (JObj
        [(''status'', JStr ''success''), (''message'', JStr ''ok''), (''job_id'', JStr ''j1''),
         (''input'', JStr ''clip.mp4''), (''output'', JStr ''clip_processed.mp4''),
         (''download_path'', JStr ''/download/j1/clip_processed.mp4''),
         (''duration_ms'', JNum 1234)])"
    by (simp add: read_body_def success_response_def)
  have s2: "status (result (?fin success_response)) = Some Success"
    by (simp add: handleProcess_complete_def result_of_data_def download_url_of_def
          success_response_def read_body_def)
  from elapsed_time_in_message [OF s1, where ops = nat_ops and st = in_flight_state] s2 fx
  have a: "message (result (?fin success_response)) = JStr (msg_done @ elapsed_label @ ''1.23s'')"
    by simp
  have f1: "read_body failed_response = Some (JObj
        [(''status'', JStr ''error''), (''message'', JStr ''ffmpeg failed''),
         (''stderr'', JStr ''Unknown encoder''), (''duration_ms'', JNum 1500)])"
    by (simp add: read_body_def failed_response_def)
  have f2: "\<not> resp_ok failed_response" by (simp add: failed_response_def)
  from elapsed_time_in_message [OF f1, where ops = nat_ops and st = in_flight_state
      and ms = 1500 and m = "''ffmpeg failed''"] f2 fx
  have b: "message (result (?fin failed_response))
             = JStr (''ffmpeg failed'' @ comma_elapsed_label @ ''1.50s'')"
    by simp
  have e1: "read_body error_only_response = Some (JObj
        [(''error'', JStr ''Internal Server Error''), (''duration_ms'', JNum 1500)])"
    by (simp add: read_body_def error_only_response_def)
  have e2: "\<not> resp_ok error_only_response" by (simp add: error_only_response_def)
  from elapsed_time_in_message [OF e1, where ops = nat_ops and st = in_flight_state] e2
  have c: "message (result (?fin error_only_response)) = JStr ''Internal Server Error''"
    by simp
  have g1: "read_body gateway_response = Some (JObj [(''message'', JStr ''Bad Gateway'')])"
    by (simp add: read_body_def gateway_response_def)
  have g2: "\<not> resp_ok gateway_response" by (simp add: gateway_response_def)
  from elapsed_time_in_message [OF g1, where ops = nat_ops and st = in_flight_state] g2
  have d: "message (result (?fin gateway_response)) = JStr ''Bad Gateway''"
    by simp
  from a b c d show ?thesis by simp
qed

section \<open>The processing flag\<close>

text \<open>
  C8. While a request is in flight \<open>isProcessing\<close> is true and the process button is
  disabled. Whatever the outcome (an ok response, an error response, a thrown
  exception), \<open>isProcessing\<close> is false once the action has completed; the button is then
  disabled only when the inputs are incomplete, so after a run that started it is
  enabled again and the action can start a new request.
\<close>

theorem isProcessing_lifecycle:
  "(handleProcess_begin st = Some (req, running) \<longrightarrow>
      isProcessing running \<and> process_button_disabled running \<and>
      \<not> process_button_disabled (handleProcess_complete ops outcome running) \<and>
      handleProcess_begin (handleProcess_complete ops outcome running) \<noteq> None) \<and>
   \<not> isProcessing (handleProcess_complete ops outcome any) \<and>
   process_button_disabled (handleProcess_complete ops outcome any) = (\<not> canProcess any) \<and>
   (canProcess st \<longrightarrow> \<not> isProcessing (snd (handleProcess ops net st)))"
  by (auto simp: handleProcess_def handleProcess_begin_def handleProcess_complete_def
        canProcess_def process_button_disabled_def Let_def split: option.splits if_splits)

theorem isProcessing_lifecycle_witness:
  "handleProcess_begin ready_state = Some (upload_request clip (command ready_state)
       (outputFilename ready_state), in_flight_state) \<and>
   canProcess ready_state \<and>
   isProcessing in_flight_state \<and> process_button_disabled in_flight_state \<and>
   \<not> isProcessing (handleProcess_complete nat_ops (Responded success_response) in_flight_state) \<and>
   \<not> process_button_disabled
        (handleProcess_complete nat_ops (Responded success_response) in_flight_state) \<and>
   \<not> isProcessing (handleProcess_complete nat_ops NetworkFailure in_flight_state) \<and>
   \<not> isProcessing (snd (handleProcess nat_ops (\<lambda>req. Responded failed_response) ready_state))"
proof -
  have b: "handleProcess_begin ready_state = Some (upload_request clip (command ready_state)
       (outputFilename ready_state), in_flight_state)"
    by (simp add: handleProcess_begin_def ready_state_def in_flight_state_def)
  have c: "canProcess ready_state"
    by (simp add: canProcess_def ready_state_def)
  from b c
    isProcessing_lifecycle [where st = ready_state and running = in_flight_state
      and req = "upload_request clip (command ready_state) (outputFilename ready_state)"
      and ops = nat_ops and outcome = "Responded success_response"
      and any = in_flight_state and net = "\<lambda>req. Responded failed_response"]
    isProcessing_lifecycle [where st = ready_state and running = in_flight_state
      and req = "upload_request clip (command ready_state) (outputFilename ready_state)"
      and ops = nat_ops and outcome = NetworkFailure
      and any = in_flight_state and net = "\<lambda>req. NetworkFailure"]
  show ?thesis by blast
qed


end
